theory Spec2Isabelle
  imports Main "HOL-Library.Finite_Map" "HOL-Library.Sublist"
begin

section \<open>Data model of the connector (pubsub.go)\<close>

text \<open>
  Go strings and byte slices are byte sequences; \<open>[]byte(str)\<close> copies the bytes of
  \<open>str\<close> unchanged, so both are modelled by \<^typ>\<open>string\<close>. A Go \<open>map[string]T\<close> is a
  finite map; a nil map reads like an empty one. \<open>time.Time\<close> is an abstract timestamp.
\<close>

type_synonym bytes = string
type_synonym time = nat
type_synonym attributes = "(string, string) fmap"

text \<open>
  Go errors. Every \<open>fmt.Errorf\<close> of pubsub.go is one constructor (the wrapped cause, where
  the format has a \<open>%v\<close>, is its argument); \<open>LibError\<close> is an error value that comes
  from outside this package (os, encoding/json, the broker client, a consumer).
\<close>

datatype error =
    LibError string
  | ErrProjectIDEmpty               \<comment> \<open>"PubSub config project_id cannot be empty"\<close>
  | ErrCreateDir error              \<comment> \<open>"failed to create credentials directory: %v"\<close>
  | ErrMarshal error                \<comment> \<open>"failed to marshal credentials: %v"\<close>
  | ErrWriteFile error              \<comment> \<open>"failed to write credentials file: %v"\<close>
  | ErrWriteTempFile error          \<comment> \<open>"failed to write temporary credentials file: %v"\<close>
  | ErrCredentialsFileNotFound string
      \<comment> \<open>"credentials file not found at %s and no credentials data provided in config"\<close>
  | ErrNoCredentials
      \<comment> \<open>"no credentials provided: either credentials_path or credentials_data must be specified"\<close>
  | ErrCreateClient error           \<comment> \<open>"failed to create PubSub client: %v"\<close>
  | ErrPublish error                \<comment> \<open>"failed to publish message: %v"\<close>

text \<open>A Go run-time panic: \<open>index out of range [i] with length n\<close>.\<close>

datatype panic = IndexOutOfRange nat nat

text \<open>\<open>pubsub.Message\<close> of the broker client, with the fields pubsub.go reads or sets.\<close>

record Message =
  ID :: string
  Data :: bytes
  PublishTime :: time
  Attributes :: attributes

text \<open>
  \<open>PubSubMessage\<close>, the value handed to consumers. Consumers see it through the
  \<open>IPubSubMessage\<close> getters, which return the fields unchanged, so the fields carry the
  getters' names.
\<close>

record PubSubMessage =
  GetID :: string
  GetData :: bytes
  GetPublishTime :: time
  GetAttributes :: attributes

text \<open>The credential payload of the configuration: the two fields pubsub.go assigns.\<close>

record Credentials =
  CredProjectID :: string
  CredPrivateKey :: string

record PubSubConfig =
  ProjectID :: string
  Topic :: string
  Subscription :: string
  CredentialsPath :: string
  Credentials :: "Credentials option"   \<comment> \<open>a pointer in Go: \<open>None\<close> is nil\<close>

text \<open>
  A consumer (\<open>port.PubSubReceiver\<close>): \<open>Consume(ctx, batch)\<close> returns a verdict map and
  an error, and may change the application's state \<open>'w\<close>.
\<close>

type_synonym verdict = "(string, bool) fmap"
type_synonym 'w PubSubReceiver =
  "PubSubMessage list \<Rightarrow> 'w \<Rightarrow> (verdict \<times> error option) \<times> 'w"

text \<open>
  The connector. \<open>Client\<close> is the broker handle (\<open>None\<close> is the nil pointer), held with
  the handle's own state \<open>'c\<close>.
\<close>

record ('c, 'w) PubSub =
  Client :: "'c option"
  Config :: PubSubConfig
  Receivers :: "'w PubSubReceiver list"

subsection \<open>Observable effects\<close>

text \<open>
  What the connector does to the outside world is recorded as a trace of events, oldest
  first: calls on a delivered message (\<open>msg.Ack()\<close>, \<open>msg.Nack()\<close>), calls of a
  consumer (by its position in \<open>Receivers\<close>), log lines, file-system calls, the start of the
  streaming pull on a subscription, and messages handed to the broker's publisher.
\<close>

datatype level = DebugLevel | InfoLevel | ErrorLevel

datatype log_arg = ArgStr string | ArgErr error

datatype ClientOption = WithCredentialsFile string

datatype event =
    MsgAck string
  | MsgNack string
  | ConsumeCall nat "PubSubMessage list"
  | Logged level string "log_arg list"
  | FsMkdirAll string nat
  | FsWriteFile string string nat
  | SubReceive string
  | BrokerPublish string Message

type_synonym trace = "event list"

fun is_ConsumeCall :: "event \<Rightarrow> bool" where
  "is_ConsumeCall (ConsumeCall i b) = True"
| "is_ConsumeCall e = False"

fun is_outcome :: "event \<Rightarrow> bool" where
  "is_outcome (MsgAck i) = True"
| "is_outcome (MsgNack i) = True"
| "is_outcome e = False"

text \<open>\<open>len(m)\<close> of a Go map.\<close>

definition len :: "('k, 'v) fmap \<Rightarrow> nat" where
  "len m = fcard (fmdom m)"

section \<open>Delivery coordinator: RegisterReceiver and StartReceiving\<close>

definition RegisterReceiver ::
  "('c, 'w) PubSub \<Rightarrow> 'w PubSubReceiver \<Rightarrow> ('c, 'w) PubSub" where
  "RegisterReceiver ps receiver = ps\<lparr>Receivers := Receivers ps @ [receiver]\<rparr>"

text \<open>
  The \<open>for _, c := range ps.Receivers\<close> loop of the receive callback. \<open>i\<close> is the
  position of the next consumer, \<open>ackDone\<close> the loop's flag.
\<close>

fun consume_loop ::
  "'w PubSubReceiver list \<Rightarrow> nat \<Rightarrow> Message \<Rightarrow> PubSubMessage \<Rightarrow> bool \<Rightarrow> 'w \<Rightarrow> trace
     \<Rightarrow> bool \<times> 'w \<times> trace" where
  "consume_loop [] i msg m ackDone w tr = (ackDone, w, tr)"
| "consume_loop (c # cs) i msg m ackDone w tr =
     (case c [m] w of
        ((ack, err), w') \<Rightarrow>
          let tr' = tr @ [ConsumeCall i [m]] in
          if \<not> ackDone \<and> err = None \<and> 0 < len ack then
            (case fmlookup ack (GetID m) of
               Some val \<Rightarrow>
                 if val then
                   consume_loop cs (Suc i) msg m True w'
                     (tr' @ [MsgAck (ID msg),
                             Logged DebugLevel ''Message processed and acknowledged''
                               [ArgStr ''messageID'', ArgStr (ID msg)]])
                 else consume_loop cs (Suc i) msg m ackDone w' tr'
             | None \<Rightarrow> consume_loop cs (Suc i) msg m ackDone w' tr')
          else consume_loop cs (Suc i) msg m ackDone w' tr')"

text \<open>The wrapper \<open>m\<close> built from the delivered message.\<close>

definition wrap :: "Message \<Rightarrow> PubSubMessage" where
  "wrap msg = \<lparr>GetID = ID msg, GetData = Data msg,
               GetPublishTime = PublishTime msg, GetAttributes = Attributes msg\<rparr>"

text \<open>The callback passed to \<open>sub.Receive\<close>, run once for each delivered message.\<close>

definition receive_callback ::
  "'w PubSubReceiver list \<Rightarrow> Message \<Rightarrow> 'w \<Rightarrow> trace \<Rightarrow> 'w \<times> trace" where
  "receive_callback receivers msg w tr =
     (let tr1 = tr @ [MsgAck (ID msg)];
          m = wrap msg
      in case consume_loop receivers 0 msg m False w tr1 of
           (ackDone, w', tr2) \<Rightarrow>
             if \<not> ackDone then
               (w', tr2 @ [MsgNack (ID msg),
                           Logged DebugLevel ''Message not processed and not acknowledged''
                             [ArgStr ''messageID'', ArgStr (ID msg)]])
             else (w', tr2))"

text \<open>
  \<open>sub.Receive\<close> hands every message the broker delivers to the callback. The deliveries
  of one run are a list; the callbacks are taken one after the other (the interleaving of
  concurrent callbacks is not modelled).
\<close>

fun Receive ::
  "'w PubSubReceiver list \<Rightarrow> Message list \<Rightarrow> 'w \<Rightarrow> trace \<Rightarrow> 'w \<times> trace" where
  "Receive receivers [] w tr = (w, tr)"
| "Receive receivers (msg # msgs) w tr =
     (case receive_callback receivers msg w tr of
        (w', tr') \<Rightarrow> Receive receivers msgs w' tr')"

text \<open>
  \<open>StartReceiving\<close>. \<open>deliveries\<close> and \<open>recv_err\<close> are what the broker does once the
  streaming pull runs: the messages it delivers and the error \<open>sub.Receive\<close> ends with.
\<close>

definition StartReceiving ::
  "('c, 'w) PubSub \<Rightarrow> Message list \<Rightarrow> error option \<Rightarrow> 'w \<Rightarrow> trace \<Rightarrow> 'w \<times> trace" where
  "StartReceiving ps deliveries recv_err w tr =
     (if length (Receivers ps) = 0 then
        (w, tr @ [Logged ErrorLevel ''PubSub has no Receiver to process incomming message'' []])
      else
        (case Receive (Receivers ps) deliveries w (tr @ [SubReceive (Subscription (Config ps))]) of
           (w', tr') \<Rightarrow>
             (case recv_err of
                Some err \<Rightarrow>
                  (w', tr' @ [Logged ErrorLevel ''Error receiving messages''
                                [ArgStr ''error'', ArgErr err]])
              | None \<Rightarrow> (w', tr'))))"

subsection \<open>What the consumers returned\<close>

text \<open>
  The values the consumers return when called in order on the batch \<open>[m]\<close>, each from
  the state its predecessor left.
\<close>

fun returns ::
  "'w PubSubReceiver list \<Rightarrow> PubSubMessage \<Rightarrow> 'w \<Rightarrow> (verdict \<times> error option) list" where
  "returns [] m w = []"
| "returns (c # cs) m w = (case c [m] w of (r, w') \<Rightarrow> r # returns cs m w')"

text \<open>A return accepts the message: no error, and the verdict map marks the ID true.\<close>

fun accepts :: "string \<Rightarrow> verdict \<times> error option \<Rightarrow> bool" where
  "accepts mid (ack, err) = (err = None \<and> fmlookup ack mid = Some True)"

text \<open>The events of a trace that come before the first occurrence of the event \<open>e\<close>.\<close>

definition before :: "event \<Rightarrow> trace \<Rightarrow> trace" where
  "before e evs = takeWhile (\<lambda>x. x \<noteq> e) evs"

text \<open>The events a call added to the trace \<open>tr\<close> it started from, given its final trace.\<close>

definition emitted :: "trace \<Rightarrow> trace \<Rightarrow> trace" where
  "emitted tr tr' = drop (length tr) tr'"

text \<open>The position of the first accepting return, if there is one.\<close>

fun first_accepting :: "string \<Rightarrow> (verdict \<times> error option) list \<Rightarrow> nat option" where
  "first_accepting mid [] = None"
| "first_accepting mid (r # rs) =
     (if accepts mid r then Some 0 else map_option Suc (first_accepting mid rs))"

text \<open>The calls of the \<open>n\<close> consumers at positions \<open>i\<close>, \<open>i + 1\<close>, ... on the batch \<open>[m]\<close>.\<close>

definition calls :: "PubSubMessage \<Rightarrow> nat \<Rightarrow> nat \<Rightarrow> trace" where
  "calls m i n = map (\<lambda>j. ConsumeCall j [m]) [i..<i + n]"

section \<open>Broker connection: Disconnect\<close>

text \<open>
  \<open>close\<close> is \<open>Client.Close()\<close> of the broker client: it returns the client's error
  and leaves the handle in a new state. \<open>Disconnect\<close> keeps the pointer it holds.
\<close>

definition Disconnect ::
  "('c \<Rightarrow> error option \<times> 'c) \<Rightarrow> ('c, 'w) PubSub \<Rightarrow> error option \<times> ('c, 'w) PubSub" where
  "Disconnect close ps =
     (case Client ps of
        Some c \<Rightarrow> (case close c of (r, c') \<Rightarrow> (r, ps\<lparr>Client := Some c'\<rparr>))
      | None \<Rightarrow> (None, ps))"

text \<open>
  A broker handle that remembers whether it was closed and, like a connection that cannot
  be closed twice, fails when closed again.
\<close>

definition close_once :: "bool \<Rightarrow> error option \<times> bool" where
  "close_once closed =
     (if closed then (Some (LibError ''the client connection is closing''), True)
      else (None, True))"

section \<open>Publisher: Publish, PublishMessage, PublishMessages\<close>

text \<open>
  \<open>get\<close> is the broker's answer to a submitted message (\<open>result.Get(ctx)\<close>): the
  server-assigned ID or an error. It may depend on everything that happened before, so it
  reads the trace, whose last event is the submission.
\<close>

type_synonym publish_result = "trace \<Rightarrow> error + string"

definition PublishMessage ::
  "publish_result \<Rightarrow> ('c, 'w) PubSub \<Rightarrow> bytes \<Rightarrow> attributes \<Rightarrow> trace
     \<Rightarrow> (string \<times> error option) \<times> trace" where
  "PublishMessage get ps data attrs tr =
     (let tr1 = tr @ [BrokerPublish (Topic (Config ps))
                        \<lparr>ID = [], Data = data, PublishTime = 0, Attributes = attrs\<rparr>]
      in case get tr1 of
           Inl err \<Rightarrow> (([], Some (ErrPublish err)), tr1)
         | Inr msgID \<Rightarrow>
             ((msgID, None),
              tr1 @ [Logged DebugLevel ''PubSub Publish: message''
                       [ArgStr ''msgID'', ArgStr msgID]]))"

text \<open>
  The \<open>any\<close> argument of \<open>Publish\<close>: a value whose dynamic type is \<open>string\<close>, or any
  other value. \<open>toJSON\<close> is \<open>helper.ToJSON\<close>.
\<close>

datatype 'v payload = StringValue string | OtherValue 'v

definition Publish ::
  "('v \<Rightarrow> error + string) \<Rightarrow> publish_result \<Rightarrow> ('c, 'w) PubSub \<Rightarrow> 'v payload \<Rightarrow> attributes
     \<Rightarrow> trace \<Rightarrow> (string \<times> error option) \<times> trace" where
  "Publish toJSON get ps message attrs tr =
     (case message of
        StringValue str \<Rightarrow> PublishMessage get ps str attrs tr
      | OtherValue v \<Rightarrow>
          (case toJSON v of
             Inl err \<Rightarrow> (([], Some err), tr)
           | Inr str \<Rightarrow> PublishMessage get ps str attrs tr))"

text \<open>
  The loop of \<open>PublishMessages\<close> over the remaining messages, with the loop's variables
  \<open>results\<close>, \<open>err\<close> and \<open>i\<close>. The assignment \<open>results[i] = msgID\<close> panics when
  \<open>i\<close> is not an index of \<open>results\<close>.
\<close>

fun PublishMessages_loop ::
  "publish_result \<Rightarrow> ('c, 'w) PubSub \<Rightarrow> bytes list \<Rightarrow> attributes
     \<Rightarrow> string list \<Rightarrow> error option \<Rightarrow> nat \<Rightarrow> trace
     \<Rightarrow> (panic + string list \<times> error option) \<times> trace" where
  "PublishMessages_loop get ps [] attrs results err i tr = (Inr (results, err), tr)"
| "PublishMessages_loop get ps (msg # msgs) attrs results err i tr =
     (case PublishMessage get ps msg attrs tr of
        ((msgID, err'), tr') \<Rightarrow>
          if msgID \<noteq> [] then
            (if i < length results then
               PublishMessages_loop get ps msgs attrs (results[i := msgID]) err' (i + 1) tr'
             else (Inl (IndexOutOfRange i (length results)), tr'))
          else PublishMessages_loop get ps msgs attrs results err' i tr')"

definition PublishMessages ::
  "publish_result \<Rightarrow> ('c, 'w) PubSub \<Rightarrow> bytes list \<Rightarrow> attributes \<Rightarrow> trace
     \<Rightarrow> (panic + string list \<times> error option) \<times> trace" where
  "PublishMessages get ps messages attrs tr =
     PublishMessages_loop get ps messages attrs [] None 0 tr"

text \<open>The payloads handed to the broker's publisher, in order.\<close>

fun transmitted :: "trace \<Rightarrow> (string \<times> bytes \<times> attributes) list" where
  "transmitted [] = []"
| "transmitted (BrokerPublish t m # evs) = (t, Data m, Attributes m) # transmitted evs"
| "transmitted (e # evs) = transmitted evs"

section \<open>Topic inspector: GetTopicInfo and EnsureTopicExists\<close>

text \<open>
  \<open>it.Next()\<close> of the broker's topic iterator returns a topic, the sentinel
  \<open>iterator.Done\<close>, or another error; \<open>nxt\<close> is that call on an iterator state.
\<close>

record pubsubpb_Topic =
  Name :: string

datatype 'a next_result = Item 'a | Done | Err error

text \<open>
  The \<open>for\<close> loop of \<open>GetTopicInfo\<close>. It ends only when the iterator reports
  \<open>Done\<close> or a topic matches, so it is a partial function: \<open>None\<close> is a loop that never
  returns, \<open>Some None\<close> the nil result.
\<close>

partial_function (option) GetTopicInfo_loop ::
  "('it \<Rightarrow> pubsubpb_Topic next_result \<times> 'it) \<Rightarrow> string \<Rightarrow> 'it
     \<Rightarrow> pubsubpb_Topic option option" where
  "GetTopicInfo_loop nxt topicName it =
     (case nxt it of
        (Done, it') \<Rightarrow> Some None
      | (Err e, it') \<Rightarrow> GetTopicInfo_loop nxt topicName it'
      | (Item topic, it') \<Rightarrow>
          if Name topic = topicName then Some (Some topic)
          else GetTopicInfo_loop nxt topicName it')"

text \<open>\<open>list_topics\<close> is \<open>TopicAdminClient.ListTopics\<close> for a project.\<close>

definition GetTopicInfo ::
  "('it \<Rightarrow> pubsubpb_Topic next_result \<times> 'it) \<Rightarrow> (string \<Rightarrow> 'it) \<Rightarrow> ('c, 'w) PubSub
     \<Rightarrow> pubsubpb_Topic option option" where
  "GetTopicInfo nxt list_topics ps =
     GetTopicInfo_loop nxt (Topic (Config ps))
       (list_topics (''projects/'' @ ProjectID (Config ps)))"

definition EnsureTopicExists ::
  "('it \<Rightarrow> pubsubpb_Topic next_result \<times> 'it) \<Rightarrow> (string \<Rightarrow> 'it) \<Rightarrow> ('c, 'w) PubSub
     \<Rightarrow> bool option" where
  "EnsureTopicExists nxt list_topics ps =
     map_option (\<lambda>r. r \<noteq> None) (GetTopicInfo nxt list_topics ps)"

text \<open>
  A broker listing: the entries the iterator meets, each a topic or an error. The
  iterator of the broker client (\<open>google.golang.org/api/iterator\<close>) hands out a fetched
  topic once and moves on; once a call has returned an error it keeps that error, so every
  later call returns the same error; after the last entry every call returns
  \<open>iterator.Done\<close>. Its state is the part of the listing not yet handed out.
\<close>

type_synonym 'a listing = "(error + 'a) list"

fun iterator_Next :: "'a listing \<Rightarrow> 'a next_result \<times> 'a listing" where
  "iterator_Next [] = (Done, [])"
| "iterator_Next (Inl e # es) = (Err e, Inl e # es)"
| "iterator_Next (Inr t # es) = (Item t, es)"

text \<open>
  What a search for the topic \<open>name\<close> comes to on a listing: the first topic of that
  name (\<open>Some (Some t)\<close>) if it comes before any error, nil (\<open>Some None\<close>) if the
  listing ends without a match and without an error, and no result at all (\<open>None\<close>)
  once an error is met first.
\<close>

fun listing_result :: "string \<Rightarrow> pubsubpb_Topic listing \<Rightarrow> pubsubpb_Topic option option" where
  "listing_result name [] = Some None"
| "listing_result name (Inl e # es) = None"
| "listing_result name (Inr t # es) =
     (if Name t = name then Some (Some t) else listing_result name es)"

section \<open>Credential provisioning and construction: NewPubSub\<close>

text \<open>
  \<open>strings.ReplaceAll(s, old, new)\<close> for a non-empty \<open>old\<close>: the non-overlapping
  occurrences of \<open>old\<close>, found from the left, are replaced by \<open>new\<close>.
\<close>

fun ReplaceAll :: "string \<Rightarrow> string \<Rightarrow> string \<Rightarrow> string" where
  "ReplaceAll [] old new = []"
| "ReplaceAll (c # cs) old new =
     (if old \<noteq> [] \<and> prefix old (c # cs)
      then new @ ReplaceAll (drop (length old) (c # cs)) old new
      else c # ReplaceAll cs old new)"

text \<open>The Go literals \<open>"\\n"\<close> (a backslash and the letter n) and \<open>"\n"\<close> (a line feed).\<close>

definition escaped_newline :: string where
  "escaped_newline = [CHR 0x5C, CHR ''n'']"

definition newline :: string where
  "newline = [CHR 0x0A]"


text \<open>
  What the operating system, the JSON encoder and the broker client answer during
  construction. \<open>Stat_IsNotExist p\<close> is \<open>os.IsNotExist(err)\<close> for the error of
  \<open>os.Stat(p)\<close>; the others are the library calls of the same names.
\<close>

record 'c os_env =
  Stat_IsNotExist :: "string \<Rightarrow> bool"
  filepath_Dir :: "string \<Rightarrow> string"
  filepath_Join :: "string \<Rightarrow> string \<Rightarrow> string"
  TempDir :: string
  MkdirAll :: "string \<Rightarrow> nat \<Rightarrow> error option"
  MarshalIndent :: "Credentials \<Rightarrow> string \<Rightarrow> string \<Rightarrow> error + bytes"
  WriteFile :: "string \<Rightarrow> bytes \<Rightarrow> nat \<Rightarrow> error option"
  NewClient :: "string \<Rightarrow> ClientOption list \<Rightarrow> error + 'c"

text \<open>The file modes \<open>0755\<close> and \<open>0600\<close>.\<close>

definition mode_0755 :: nat where
  "mode_0755 = 7 * 64 + 5 * 8 + 5"

definition mode_0600 :: nat where
  "mode_0600 = 6 * 64"

text \<open>The two assignments to \<open>config.Credentials\<close> made before it is serialised.\<close>

definition normalize_credentials :: "PubSubConfig \<Rightarrow> Credentials \<Rightarrow> Credentials" where
  "normalize_credentials config creds =
     creds\<lparr>CredProjectID := ProjectID config,
           CredPrivateKey := ReplaceAll (CredPrivateKey creds) escaped_newline newline\<rparr>"

text \<open>The end of \<open>NewPubSub\<close>, reached with the client options: create the client.\<close>

definition create_client ::
  "'c os_env \<Rightarrow> PubSubConfig \<Rightarrow> ClientOption list \<Rightarrow> trace
     \<Rightarrow> (error + ('c, 'w) PubSub) \<times> trace" where
  "create_client env config opts tr =
     (case NewClient env (ProjectID config) opts of
        Inl err \<Rightarrow> (Inl (ErrCreateClient err), tr)
      | Inr client \<Rightarrow> (Inr \<lparr>Client = Some client, Config = config, Receivers = []\<rparr>, tr))"

definition NewPubSub ::
  "'c os_env \<Rightarrow> PubSubConfig \<Rightarrow> trace \<Rightarrow> (error + ('c, 'w) PubSub) \<times> trace" where
  "NewPubSub env config tr =
     (if ProjectID config = [] then (Inl ErrProjectIDEmpty, tr)
      else if CredentialsPath config \<noteq> [] then
        (if Stat_IsNotExist env (CredentialsPath config) then
           (case Credentials config of
              Some creds \<Rightarrow>
                (let creds' = normalize_credentials config creds;
                     config' = config\<lparr>Credentials := Some creds'\<rparr>;
                     dir = filepath_Dir env (CredentialsPath config);
                     tr1 = tr @ [FsMkdirAll dir mode_0755]
                 in case MkdirAll env dir mode_0755 of
                      Some err \<Rightarrow> (Inl (ErrCreateDir err), tr1)
                    | None \<Rightarrow>
                        (case MarshalIndent env creds' [] ''  '' of
                           Inl err \<Rightarrow> (Inl (ErrMarshal err), tr1)
                         | Inr credJSON \<Rightarrow>
                             (let tr2 = tr1 @ [FsWriteFile (CredentialsPath config) credJSON mode_0600]
                              in case WriteFile env (CredentialsPath config) credJSON mode_0600 of
                                   Some err \<Rightarrow> (Inl (ErrWriteFile err), tr2)
                                 | None \<Rightarrow>
                                     create_client env config'
                                       [WithCredentialsFile (CredentialsPath config)]
                                       (tr2 @ [Logged InfoLevel ''Created credentials file from config''
                                                 [ArgStr ''path'', ArgStr (CredentialsPath config)]]))))
            | None \<Rightarrow> (Inl (ErrCredentialsFileNotFound (CredentialsPath config)), tr))
         else create_client env config [WithCredentialsFile (CredentialsPath config)] tr)
      else
        (case Credentials config of
           Some creds \<Rightarrow>
             (let creds' = normalize_credentials config creds;
                  config' = config\<lparr>Credentials := Some creds'\<rparr>;
                  tempDir = TempDir env;
                  tempCredPath = filepath_Join env tempDir
                                   (''pubsub-credentials-'' @ ProjectID config @ ''.json'')
              in case MarshalIndent env creds' [] ''  '' of
                   Inl err \<Rightarrow> (Inl (ErrMarshal err), tr)
                 | Inr credJSON \<Rightarrow>
                     (let tr1 = tr @ [FsWriteFile tempCredPath credJSON mode_0600]
                      in case WriteFile env tempCredPath credJSON mode_0600 of
                           Some err \<Rightarrow> (Inl (ErrWriteTempFile err), tr1)
                         | None \<Rightarrow>
                             create_client env config' [WithCredentialsFile tempCredPath]
                               (tr1 @ [Logged InfoLevel
                                         ''Created temporary credentials file from config''
                                         [ArgStr ''path'', ArgStr tempCredPath]])))
         | None \<Rightarrow> (Inl ErrNoCredentials, tr)))"

text \<open>
  pubsub.go gives its errors no type. The taxonomy's \<open>ConfigurationError\<close> is the
  errors for a missing project id and for missing credentials.
\<close>

fun ConfigurationError :: "error \<Rightarrow> bool" where
  "ConfigurationError ErrProjectIDEmpty = True"
| "ConfigurationError (ErrCredentialsFileNotFound p) = True"
| "ConfigurationError ErrNoCredentials = True"
| "ConfigurationError e = False"

text \<open>
  The taxonomy's \<open>CredentialProvisioningError\<close>: directory creation, serialisation or
  file write failed while the credential file was made. Provisioning has failed when
  \<open>NewPubSub\<close> returns one of these.
\<close>

fun CredentialProvisioningError :: "error \<Rightarrow> bool" where
  "CredentialProvisioningError (ErrCreateDir e) = True"
| "CredentialProvisioningError (ErrMarshal e) = True"
| "CredentialProvisioningError (ErrWriteFile e) = True"
| "CredentialProvisioningError (ErrWriteTempFile e) = True"
| "CredentialProvisioningError e = False"

definition provisioning_failed :: "error + 'a \<Rightarrow> bool" where
  "provisioning_failed r = (case r of Inl e \<Rightarrow> CredentialProvisioningError e | Inr x \<Rightarrow> False)"

text \<open>The path \<open>NewPubSub\<close> writes inline credentials to.\<close>

definition credentials_target :: "'c os_env \<Rightarrow> PubSubConfig \<Rightarrow> string" where
  "credentials_target env config =
     (if CredentialsPath config \<noteq> [] then CredentialsPath config
      else filepath_Join env (TempDir env)
             (''pubsub-credentials-'' @ ProjectID config @ ''.json''))"

text \<open>The files written in a trace: path, content and mode of every \<open>os.WriteFile\<close>.\<close>

fun written :: "trace \<Rightarrow> (string \<times> bytes \<times> nat) list" where
  "written [] = []"
| "written (FsWriteFile p c m # evs) = (p, c, m) # written evs"
| "written (e # evs) = written evs"

section \<open>Example values\<close>

text \<open>
  A delivered message \<open>m1\<close> and three consumers that count their calls in the state:
  one rejects \<open>m1\<close>, one accepts it, one marks it true but returns an error.
\<close>

definition msg1 :: Message where
  "msg1 = \<lparr>ID = ''m1'', Data = ''payload'', PublishTime = 7, Attributes = fmempty\<rparr>"

definition consumerA :: "nat PubSubReceiver" where
  "consumerA batch w = ((fmupd ''m1'' False fmempty, None), Suc w)"

definition consumerB :: "nat PubSubReceiver" where
  "consumerB batch w = ((fmupd ''m1'' True fmempty, None), Suc w)"

definition consumerE :: "nat PubSubReceiver" where
  "consumerE batch w = ((fmupd ''m1'' True fmempty, Some (LibError ''boom'')), Suc w)"

definition ack_log :: event where
  "ack_log = Logged DebugLevel ''Message processed and acknowledged''
               [ArgStr ''messageID'', ArgStr ''m1'']"

definition nack_log :: event where
  "nack_log = Logged DebugLevel ''Message not processed and not acknowledged''
                [ArgStr ''messageID'', ArgStr ''m1'']"

text \<open>A configuration, two topics of its project, and a connector with no consumer.\<close>

definition cfg1 :: PubSubConfig where
  "cfg1 = \<lparr>ProjectID = ''proj-1'', Topic = ''projects/proj-1/topics/t1'',
           Subscription = ''projects/proj-1/subscriptions/s1'',
           CredentialsPath = ''/tmp/creds.json'', Credentials = None\<rparr>"

definition t1 :: pubsubpb_Topic where
  "t1 = \<lparr>Name = ''projects/proj-1/topics/t1''\<rparr>"

definition t2 :: pubsubpb_Topic where
  "t2 = \<lparr>Name = ''projects/proj-1/topics/t2''\<rparr>"

definition ps1 :: "(bool, nat) PubSub" where
  "ps1 = \<lparr>Client = Some False, Config = cfg1, Receivers = []\<rparr>"



definition env1 :: "bool os_env" where
  "env1 = \<lparr>Stat_IsNotExist = (\<lambda>p. True),
           filepath_Dir = (\<lambda>p. ''/tmp''),
           filepath_Join = (\<lambda>d f. d @ ''/'' @ f),
           TempDir = ''/tmp'',
           MkdirAll = (\<lambda>d m. None),
           MarshalIndent = (\<lambda>c pre ind. Inr (CredProjectID c @ ''|'' @ CredPrivateKey c)),
           WriteFile = (\<lambda>p c m. None),
           NewClient = (\<lambda>p opts. Inr False)\<rparr>"





text \<open>
  A broker that accepts every message with the ID \<open>id-1\<close>, one that refuses every
  message, the JSON text \<open>{"x":1}\<close>, and a \<open>ToJSON\<close> on optional numbers that cannot
  serialise an absent one.
\<close>

definition broker_ok :: publish_result where
  "broker_ok tr = Inr ''id-1''"

definition broker_down :: publish_result where
  "broker_down tr = Inl (LibError ''unavailable'')"

definition json_x1 :: string where
  "json_x1 = [CHR ''{'', CHR 0x22, CHR ''x'', CHR 0x22, CHR '':'', CHR ''1'', CHR ''}'']"

definition toJSON1 :: "nat option \<Rightarrow> error + string" where
  "toJSON1 v = (case v of Some n \<Rightarrow> Inr json_x1 | None \<Rightarrow> Inl (LibError ''unsupported type''))"

definition publish_log :: event where
  "publish_log = Logged DebugLevel ''PubSub Publish: message'' [ArgStr ''msgID'', ArgStr ''id-1'']"

section \<open>Properties of the delivery coordinator\<close>

lemma len_pos_iff: "0 < len m \<longleftrightarrow> fmdom m \<noteq> {||}"
  by (simp add: len_def zero_less_iff_neq_zero)

lemma lookup_len_pos: "fmlookup m k = Some v \<Longrightarrow> 0 < len m"
  unfolding len_pos_iff by (metis fmdomI fempty_iff)

lemma first_accepting_None: "first_accepting mid rs = None \<longleftrightarrow> (\<forall>r\<in>set rs. \<not> accepts mid r)"
  by (induction rs) auto

lemma first_accepting_Some:
  "first_accepting mid rs = Some k \<longleftrightarrow>
     k < length rs \<and> accepts mid (rs ! k) \<and> (\<forall>j<k. \<not> accepts mid (rs ! j))"
proof (induction rs arbitrary: k)
  case Nil
  then show ?case by simp
next
  case (Cons r rs)
  show ?case
  proof (cases "accepts mid r")
    case True
    then show ?thesis by (cases k) auto
  next
    case False
    show ?thesis
    proof (cases k)
      case 0
      with False show ?thesis by simp
    next
      case (Suc k')
      have "(\<forall>j<Suc k'. \<not> accepts mid ((r # rs) ! j)) \<longleftrightarrow> (\<forall>j<k'. \<not> accepts mid (rs ! j))"
        using False by (auto simp: less_Suc_eq_0_disj)
      with False Suc Cons.IH[of k'] show ?thesis by auto
    qed
  qed
qed

lemma length_returns: "length (returns cs m w) = length cs"
  by (induction cs arbitrary: w) (auto split: prod.splits)

lemma calls_Suc: "calls m i (Suc n) = ConsumeCall i [m] # calls m (Suc i) n"
  by (simp add: calls_def upt_rec)

lemma calls_0: "calls m i 0 = []"
  by (simp add: calls_def)

lemma consume_loop_trace:
  "consume_loop cs i msg m d w tr = (d', w', tr') \<Longrightarrow> GetID m = ID msg \<Longrightarrow>
   \<exists>evs. tr' = tr @ evs \<and>
     filter is_ConsumeCall evs = calls m i (length cs) \<and>
     (if d then d' \<and> filter is_outcome evs = []
      else case first_accepting (ID msg) (returns cs m w) of
             None \<Rightarrow> \<not> d' \<and> filter is_outcome evs = []
           | Some k \<Rightarrow> d' \<and> filter is_outcome evs = [MsgAck (ID msg)] \<and>
               filter is_ConsumeCall (before (MsgAck (ID msg)) evs) = calls m i (Suc k))"
proof (induction cs arbitrary: i d w tr)
  case Nil
  then show ?case by (auto simp: calls_0 before_def)
next
  case (Cons c cs)
  obtain ack err w1 where c: "c [m] w = ((ack, err), w1)"
    by (metis surj_pair)
  let ?tr1 = "tr @ [ConsumeCall i [m]]"
  let ?won = "\<not> d \<and> accepts (ID msg) (ack, err)"
  let ?ackevs = "[MsgAck (ID msg), Logged DebugLevel ''Message processed and acknowledged''
                               [ArgStr ''messageID'', ArgStr (ID msg)]]"
  have step: "consume_loop (c # cs) i msg m d w tr =
     consume_loop cs (Suc i) msg m (d \<or> ?won) w1 (?tr1 @ (if ?won then ?ackevs else []))"
    using c Cons.prems(2) lookup_len_pos[of ack "ID msg"]
    by (cases "fmlookup ack (ID msg)") (auto simp: Let_def)
  from Cons.prems(1) step
  have rec: "consume_loop cs (Suc i) msg m (d \<or> ?won) w1 (?tr1 @ (if ?won then ?ackevs else [])) = (d', w', tr')"
    by simp
  from Cons.IH[OF rec Cons.prems(2)] obtain evs where
    evs: "tr' = (?tr1 @ (if ?won then ?ackevs else [])) @ evs"
      "filter is_ConsumeCall evs = calls m (Suc i) (length cs)"
      "(if d \<or> ?won then d' \<and> filter is_outcome evs = []
      else case first_accepting (ID msg) (returns cs m w1) of
             None \<Rightarrow> \<not> d' \<and> filter is_outcome evs = []
           | Some k \<Rightarrow> d' \<and> filter is_outcome evs = [MsgAck (ID msg)] \<and>
               filter is_ConsumeCall (before (MsgAck (ID msg)) evs) = calls m (Suc i) (Suc k))"
    by blast
  let ?evs = "ConsumeCall i [m] # (if ?won then ?ackevs else []) @ evs"
  have "tr' = tr @ ?evs" using evs(1) by simp
  moreover have "filter is_ConsumeCall ?evs = calls m i (length (c # cs))"
    using evs(2) by (simp add: calls_Suc)
  moreover have "(if d then d' \<and> filter is_outcome ?evs = []
      else case first_accepting (ID msg) (returns (c # cs) m w) of
             None \<Rightarrow> \<not> d' \<and> filter is_outcome ?evs = []
           | Some k \<Rightarrow> d' \<and> filter is_outcome ?evs = [MsgAck (ID msg)] \<and>
               filter is_ConsumeCall (before (MsgAck (ID msg)) ?evs) = calls m i (Suc k))"
    using evs(3) c
    by (auto simp: before_def calls_Suc calls_0 split: option.splits if_splits)
  ultimately show ?case by blast
qed

lemma before_append_notin: "e \<notin> set xs \<Longrightarrow> before e (xs @ e # ys) = xs"
  by (induction xs) (auto simp: before_def)

lemma no_outcome_notin: "filter is_outcome evs = [] \<Longrightarrow> MsgNack i \<notin> set evs"
  by (auto simp: filter_empty_conv)

lemma receive_callback_trace:
  assumes "receive_callback cs msg w tr = (w', tr')"
  shows "\<exists>evs. tr' = tr @ MsgAck (ID msg) # evs \<and>
     filter is_ConsumeCall evs = calls (wrap msg) 0 (length cs) \<and>
     (case first_accepting (ID msg) (returns cs (wrap msg) w) of
        Some k \<Rightarrow> filter is_outcome evs = [MsgAck (ID msg)] \<and>
                 filter is_ConsumeCall (before (MsgAck (ID msg)) evs) = calls (wrap msg) 0 (Suc k)
      | None \<Rightarrow> filter is_outcome evs = [MsgNack (ID msg)] \<and>
                 filter is_ConsumeCall (before (MsgNack (ID msg)) evs) = calls (wrap msg) 0 (length cs))"
proof -
  obtain d w1 tr2 where loop:
    "consume_loop cs 0 msg (wrap msg) False w (tr @ [MsgAck (ID msg)]) = (d, w1, tr2)"
    by (metis prod_cases3)
  have id: "GetID (wrap msg) = ID msg" by (simp add: wrap_def)
  from consume_loop_trace[OF loop id] obtain evs where evs:
    "tr2 = (tr @ [MsgAck (ID msg)]) @ evs"
    "filter is_ConsumeCall evs = calls (wrap msg) 0 (length cs)"
    "case first_accepting (ID msg) (returns cs (wrap msg) w) of
             None \<Rightarrow> \<not> d \<and> filter is_outcome evs = []
           | Some k \<Rightarrow> d \<and> filter is_outcome evs = [MsgAck (ID msg)] \<and>
               filter is_ConsumeCall (before (MsgAck (ID msg)) evs) = calls (wrap msg) 0 (Suc k)"
    by auto
  let ?nack = "[MsgNack (ID msg),
               Logged DebugLevel ''Message not processed and not acknowledged''
                 [ArgStr ''messageID'', ArgStr (ID msg)]]"
  from assms loop have tr': "tr' = (if \<not> d then tr2 @ ?nack else tr2)"
    by (auto simp: receive_callback_def Let_def split: if_splits)
  show ?thesis
  proof (cases "first_accepting (ID msg) (returns cs (wrap msg) w)")
    case None
    with evs(3) have d: "\<not> d" and no: "filter is_outcome evs = []" by auto
    from no have notin: "MsgNack (ID msg) \<notin> set evs" by (rule no_outcome_notin)
    have "tr' = tr @ MsgAck (ID msg) # (evs @ ?nack)" using tr' d evs(1) by simp
    moreover have "filter is_ConsumeCall (evs @ ?nack) = calls (wrap msg) 0 (length cs)"
      using evs(2) by simp
    moreover have "filter is_outcome (evs @ ?nack) = [MsgNack (ID msg)]"
      using no by simp
    moreover have "filter is_ConsumeCall (before (MsgNack (ID msg)) (evs @ ?nack))
                     = calls (wrap msg) 0 (length cs)"
      using before_append_notin[OF notin] evs(2) by simp
    ultimately show ?thesis using None by auto
  next
    case (Some k)
    with evs(3) have d: "d" by auto
    have "tr' = tr @ MsgAck (ID msg) # evs" using tr' d evs(1) by simp
    then show ?thesis using Some evs(2,3) by auto
  qed
qed

text \<open>
  Claim C1. For a delivered message and the consumers \<open>cs\<close> in registration order, the
  events \<open>evs\<close> that follow the first acknowledgment hold exactly one call of every
  consumer, in order, on the batch of that one message, whatever the earlier consumers
  returned, and exactly one outcome. If consumer \<open>k\<close> is the first whose return has no
  error and marks the message's ID true, the outcome is an acknowledgment, issued after
  the calls of consumers \<open>0..k\<close> and before the others; if no return accepts (a return
  with an error never does), the outcome is one negative acknowledgment after all calls.
\<close>

theorem dispatch_first_success_wins:
  assumes "receive_callback cs msg w tr = (w', tr')"
  shows "\<exists>evs. tr' = tr @ MsgAck (ID msg) # evs \<and>
     filter is_ConsumeCall evs = map (\<lambda>j. ConsumeCall j [wrap msg]) [0..<length cs] \<and>
     length (filter is_outcome evs) = 1 \<and>
     (\<forall>k. k < length cs \<and> accepts (ID msg) (returns cs (wrap msg) w ! k) \<and>
          (\<forall>j<k. \<not> accepts (ID msg) (returns cs (wrap msg) w ! j))
        \<longrightarrow> filter is_outcome evs = [MsgAck (ID msg)] \<and>
            filter is_ConsumeCall (before (MsgAck (ID msg)) evs)
              = map (\<lambda>j. ConsumeCall j [wrap msg]) [0..<Suc k]) \<and>
     ((\<forall>r\<in>set (returns cs (wrap msg) w). \<not> accepts (ID msg) r)
        \<longrightarrow> filter is_outcome evs = [MsgNack (ID msg)] \<and>
            filter is_ConsumeCall (before (MsgNack (ID msg)) evs)
              = map (\<lambda>j. ConsumeCall j [wrap msg]) [0..<length cs])"
proof -
  let ?rs = "returns cs (wrap msg) w"
  from receive_callback_trace[OF assms] obtain evs where evs:
    "tr' = tr @ MsgAck (ID msg) # evs"
    "filter is_ConsumeCall evs = calls (wrap msg) 0 (length cs)"
    "case first_accepting (ID msg) ?rs of
        Some k \<Rightarrow> filter is_outcome evs = [MsgAck (ID msg)] \<and>
                 filter is_ConsumeCall (before (MsgAck (ID msg)) evs) = calls (wrap msg) 0 (Suc k)
      | None \<Rightarrow> filter is_outcome evs = [MsgNack (ID msg)] \<and>
                 filter is_ConsumeCall (before (MsgNack (ID msg)) evs) = calls (wrap msg) 0 (length cs)"
    by blast
  have one: "length (filter is_outcome evs) = 1"
    using evs(3) by (cases "first_accepting (ID msg) ?rs") auto
  have win: "filter is_outcome evs = [MsgAck (ID msg)] \<and>
            filter is_ConsumeCall (before (MsgAck (ID msg)) evs)
              = map (\<lambda>j. ConsumeCall j [wrap msg]) [0..<Suc k]"
    if "k < length cs" "accepts (ID msg) (?rs ! k)" "\<forall>j<k. \<not> accepts (ID msg) (?rs ! j)" for k
  proof -
    from that have "first_accepting (ID msg) ?rs = Some k"
      by (simp add: first_accepting_Some length_returns)
    with evs(3) show ?thesis by (simp add: calls_def)
  qed
  have lose: "filter is_outcome evs = [MsgNack (ID msg)] \<and>
            filter is_ConsumeCall (before (MsgNack (ID msg)) evs)
              = map (\<lambda>j. ConsumeCall j [wrap msg]) [0..<length cs]"
    if "\<forall>r\<in>set ?rs. \<not> accepts (ID msg) r"
  proof -
    from that have "first_accepting (ID msg) ?rs = None"
      by (simp add: first_accepting_None)
    with evs(3) show ?thesis by (simp add: calls_def)
  qed
  have all: "filter is_ConsumeCall evs = map (\<lambda>j. ConsumeCall j [wrap msg]) [0..<length cs]"
    using evs(2) by (simp add: calls_def)
  from evs(1) all one win lose show ?thesis by blast
qed

lemma run1:
  "receive_callback [consumerE, consumerA, consumerB, consumerB] msg1 0 [] =
     (4, [MsgAck ''m1'', ConsumeCall 0 [wrap msg1], ConsumeCall 1 [wrap msg1],
          ConsumeCall 2 [wrap msg1], MsgAck ''m1'', ack_log, ConsumeCall 3 [wrap msg1]])"
  by (simp add: receive_callback_def consumerE_def consumerA_def consumerB_def msg1_def
        wrap_def len_pos_iff ack_log_def Let_def eval_nat_numeral)

theorem dispatch_first_success_wins_witness:
  "receive_callback [consumerE, consumerA, consumerB, consumerB] msg1 0 [] =
     (4, [MsgAck ''m1'', ConsumeCall 0 [wrap msg1], ConsumeCall 1 [wrap msg1],
          ConsumeCall 2 [wrap msg1], MsgAck ''m1'', ack_log, ConsumeCall 3 [wrap msg1]]) \<and>
   filter is_outcome [ConsumeCall 0 [wrap msg1], ConsumeCall 1 [wrap msg1],
          ConsumeCall 2 [wrap msg1], MsgAck ''m1'', ack_log, ConsumeCall 3 [wrap msg1]]
     = [MsgAck ''m1'']"
proof -
  note h = run1
  from dispatch_first_success_wins[OF h] obtain evs where
    evs: "[MsgAck ''m1'', ConsumeCall 0 [wrap msg1], ConsumeCall 1 [wrap msg1],
          ConsumeCall 2 [wrap msg1], MsgAck ''m1'', ack_log, ConsumeCall 3 [wrap msg1]]
          = [] @ MsgAck (ID msg1) # evs"
    and one: "length (filter is_outcome evs) = 1"
    by blast
  from evs have "evs = [ConsumeCall 0 [wrap msg1], ConsumeCall 1 [wrap msg1],
          ConsumeCall 2 [wrap msg1], MsgAck ''m1'', ack_log, ConsumeCall 3 [wrap msg1]]"
    by (simp add: msg1_def)
  with one h show ?thesis by (simp add: ack_log_def)
qed

text \<open>
  Claim C2. The callback's first event for a delivered message is the acknowledgment of
  that message: every call of a consumer in the callback comes after it.
\<close>

theorem ack_before_consumers:
  assumes "receive_callback cs msg w tr = (w', tr')"
  shows "\<exists>evs. tr' = tr @ MsgAck (ID msg) # evs \<and>
     (\<forall>n. length tr \<le> n \<and> n < length tr' \<and> is_ConsumeCall (tr' ! n)
        \<longrightarrow> length tr < n \<and> tr' ! length tr = MsgAck (ID msg))"
proof -
  from receive_callback_trace[OF assms] obtain evs where
    evs: "tr' = tr @ MsgAck (ID msg) # evs"
    by blast
  have first: "tr' ! length tr = MsgAck (ID msg)"
    using evs by simp
  have "length tr < n" if "length tr \<le> n" "is_ConsumeCall (tr' ! n)" for n
  proof (rule ccontr)
    assume "\<not> length tr < n"
    with that(1) have "n = length tr" by simp
    with that(2) first show False by simp
  qed
  with evs first show ?thesis by blast
qed

lemma run2:
  "receive_callback [consumerA, consumerE] msg1 0 [] =
     (2, [MsgAck ''m1'', ConsumeCall 0 [wrap msg1], ConsumeCall 1 [wrap msg1],
          MsgNack ''m1'', nack_log])"
  by (simp add: receive_callback_def consumerE_def consumerA_def msg1_def
        wrap_def len_pos_iff nack_log_def Let_def eval_nat_numeral)

theorem ack_before_consumers_witness:
  "receive_callback [consumerA, consumerE] msg1 0 [] =
     (2, [MsgAck ''m1'', ConsumeCall 0 [wrap msg1], ConsumeCall 1 [wrap msg1],
          MsgNack ''m1'', nack_log]) \<and>
   is_ConsumeCall ([MsgAck ''m1'', ConsumeCall 0 [wrap msg1], ConsumeCall 1 [wrap msg1],
          MsgNack ''m1'', nack_log] ! 1) \<and>
   [MsgAck ''m1'', ConsumeCall 0 [wrap msg1], ConsumeCall 1 [wrap msg1],
          MsgNack ''m1'', nack_log] ! 0 = MsgAck (ID msg1)"
proof -
  from ack_before_consumers[OF run2] have
    "\<forall>n. length ([] :: trace) \<le> n \<and>
         n < length [MsgAck ''m1'', ConsumeCall 0 [wrap msg1], ConsumeCall 1 [wrap msg1],
                     MsgNack ''m1'', nack_log] \<and>
         is_ConsumeCall ([MsgAck ''m1'', ConsumeCall 0 [wrap msg1], ConsumeCall 1 [wrap msg1],
                     MsgNack ''m1'', nack_log] ! n)
        \<longrightarrow> length ([] :: trace) < n \<and>
            [MsgAck ''m1'', ConsumeCall 0 [wrap msg1], ConsumeCall 1 [wrap msg1],
                     MsgNack ''m1'', nack_log] ! length ([] :: trace) = MsgAck (ID msg1)"
    by blast
  from this[rule_format, of 1] run2 show ?thesis by simp
qed

text \<open>
  Claim C4. With no registered consumer, \<open>StartReceiving\<close> only logs the condition:
  whatever the broker would deliver, the streaming pull is not started, no consumer is
  called and no message is acknowledged or rejected.
\<close>

theorem start_without_consumers:
  assumes "Receivers ps = []"
  shows "StartReceiving ps deliveries recv_err w tr =
           (w, tr @ [Logged ErrorLevel ''PubSub has no Receiver to process incomming message'' []]) \<and>
         (\<forall>e\<in>set (drop (length tr) (snd (StartReceiving ps deliveries recv_err w tr))).
            \<not> is_ConsumeCall e \<and> \<not> is_outcome e \<and> e \<noteq> SubReceive (Subscription (Config ps)))"
  using assms by (simp add: StartReceiving_def)

theorem start_without_consumers_witness:
  "Receivers ps1 = [] \<and>
   StartReceiving ps1 [msg1] None 0 [] =
     (0, [Logged ErrorLevel ''PubSub has no Receiver to process incomming message'' []])"
proof -
  have h: "Receivers ps1 = []" by (simp add: ps1_def)
  from start_without_consumers[OF h, of "[msg1]" None 0 "[]"] h show ?thesis by simp
qed

text \<open>With a consumer registered, the same call starts the streaming pull and dispatches.\<close>

lemma start_with_consumer:
  "StartReceiving (RegisterReceiver ps1 consumerB) [msg1] None 0 [] =
     (1, [SubReceive ''projects/proj-1/subscriptions/s1'', MsgAck ''m1'',
          ConsumeCall 0 [wrap msg1], MsgAck ''m1'', ack_log])"
  by (simp add: StartReceiving_def RegisterReceiver_def ps1_def cfg1_def receive_callback_def
        consumerB_def msg1_def wrap_def len_pos_iff ack_log_def Let_def)

section \<open>Properties of the topic inspector\<close>

text \<open>The loop on the iterator of a listing: it is stuck as soon as an error is met.\<close>

lemma GetTopicInfo_loop_stuck_aux:
  assumes "GetTopicInfo_loop nxt name it = Some y"
  shows "\<not> (nxt = iterator_Next \<and> (\<exists>e es. it = Inl e # es))"
proof (rule GetTopicInfo_loop.raw_induct[
        where P = "\<lambda>nxt name it y. \<not> (nxt = iterator_Next \<and> (\<exists>e es. it = Inl e # es))",
        OF _ assms])
  fix f :: "(pubsubpb_Topic listing \<Rightarrow> pubsubpb_Topic next_result \<times> pubsubpb_Topic listing)
              \<Rightarrow> string \<Rightarrow> pubsubpb_Topic listing \<Rightarrow> pubsubpb_Topic option option"
    and nxt name it y
  assume ih: "\<And>nxt name it y. f nxt name it = Some y
                \<Longrightarrow> \<not> (nxt = iterator_Next \<and> (\<exists>e es. it = Inl e # es))"
    and step: "(case nxt it of
        (Done, it') \<Rightarrow> Some None
      | (Err e, it') \<Rightarrow> f nxt name it'
      | (Item topic, it') \<Rightarrow>
          if Name topic = name then Some (Some topic)
          else f nxt name it') = Some y"
  show "\<not> (nxt = iterator_Next \<and> (\<exists>e es. it = Inl e # es))"
  proof
    assume a: "nxt = iterator_Next \<and> (\<exists>e es. it = Inl e # es)"
    then obtain e es where it: "it = Inl e # es" and n: "nxt = iterator_Next" by blast
    with step have "f nxt name it = Some y" by simp
    from ih[OF this] a show False by blast
  qed
qed

lemma GetTopicInfo_loop_stuck:
  "GetTopicInfo_loop iterator_Next name (Inl e # es) = None"
  using GetTopicInfo_loop_stuck_aux[of iterator_Next name "Inl e # es"]
  by (cases "GetTopicInfo_loop iterator_Next name (Inl e # es)") auto

lemma GetTopicInfo_loop_iterator:
  "GetTopicInfo_loop iterator_Next name es = listing_result name es"
proof (induction es)
  case Nil
  show ?case by (subst GetTopicInfo_loop.simps) simp
next
  case (Cons x es)
  show ?case
  proof (cases x)
    case (Inl err)
    then show ?thesis by (simp add: GetTopicInfo_loop_stuck)
  next
    case (Inr t)
    with Cons show ?thesis by (subst GetTopicInfo_loop.simps) simp
  qed
qed

text \<open>
  Claim C5 fails on the code: the loop answers an error of the iterator with
  \<open>continue\<close>, the next call of the iterator returns the same error, and so on, so
  \<open>GetTopicInfo\<close> never returns once the iterator has erred. An erroring entry before
  the configured topic is not skipped, and an erroring entry in a listing without the
  topic does not lead to the answer false.
\<close>

theorem topic_listing_error_never_returns:
  "EnsureTopicExists iterator_Next (\<lambda>p. [Inr t2, Inl (LibError ''transient''), Inr t1]) ps1 = None \<and>
   EnsureTopicExists iterator_Next (\<lambda>p. [Inr t2, Inl (LibError ''transient'')]) ps1 = None"
  by (simp add: EnsureTopicExists_def GetTopicInfo_def GetTopicInfo_loop_iterator t1_def t2_def
        ps1_def cfg1_def)

text \<open>
  What does hold: a topic of the configured name that comes before any error is found
  (the listing \<open>[t1, t2]\<close> in which fetching \<open>t2\<close> errs), and a listing without errors
  and without the topic gives false.
\<close>

lemma topic_found_before_error:
  "EnsureTopicExists iterator_Next (\<lambda>p. [Inr t1, Inl (LibError ''transient'')]) ps1 = Some True"
  by (simp add: EnsureTopicExists_def GetTopicInfo_def GetTopicInfo_loop_iterator t1_def
        ps1_def cfg1_def)

lemma topic_listing_without_error:
  "EnsureTopicExists iterator_Next (\<lambda>p. [Inr t2]) ps1 = Some False"
  by (simp add: EnsureTopicExists_def GetTopicInfo_def GetTopicInfo_loop_iterator t1_def t2_def
        ps1_def cfg1_def)

section \<open>Properties of construction and credential provisioning\<close>








text \<open>
  Claim C6. When the project id is empty, or when there is no inline credential data and
  either no credential path is configured or no file exists at the configured path,
  \<open>NewPubSub\<close> fails with a configuration error and leaves the trace as it was: it
  emits no event at all, so it makes no directory and writes no file.
\<close>

theorem construction_rejected:
  assumes "ProjectID config = [] \<or>
           (Credentials config = None \<and>
            (CredentialsPath config = [] \<or> Stat_IsNotExist env (CredentialsPath config)))"
  shows "\<exists>e. NewPubSub env config tr = (Inl e, tr) \<and> ConfigurationError e"
  using assms by (auto simp: NewPubSub_def)

theorem construction_rejected_witness:
  "Credentials cfg1 = None \<and> Stat_IsNotExist env1 (CredentialsPath cfg1) \<and>
   NewPubSub env1 cfg1 [] = (Inl (ErrCredentialsFileNotFound ''/tmp/creds.json''), [])"
proof -
  have h: "ProjectID cfg1 = [] \<or>
           (Credentials cfg1 = None \<and>
            (CredentialsPath cfg1 = [] \<or> Stat_IsNotExist env1 (CredentialsPath cfg1)))"
    by (simp add: cfg1_def env1_def)
  from construction_rejected[OF h, of "[]"] obtain e where
    "NewPubSub env1 cfg1 [] = (Inl e, []) \<and> ConfigurationError e" by blast
  then show ?thesis by (simp add: NewPubSub_def cfg1_def env1_def)
qed



lemma create_client_result:
  "create_client env config opts tr = (r, tr') \<Longrightarrow> tr' = tr \<and> \<not> provisioning_failed r"
  by (auto simp: create_client_def provisioning_failed_def split: sum.splits)


text \<open>When provisioning fails, no write has succeeded.\<close>

lemma NewPubSub_not_provisioned:
  assumes "Credentials config = Some creds"
    and "CredentialsPath config = [] \<or> Stat_IsNotExist env (CredentialsPath config)"
    and "ProjectID config \<noteq> []"
    and "NewPubSub env config tr = (r, tr')"
    and "provisioning_failed r"
  shows "\<forall>(p, c, m)\<in>set (written (emitted tr tr')). WriteFile env p c m \<noteq> None"
proof (cases "CredentialsPath config = []")
  case True
  with assms show ?thesis
    by (auto simp: NewPubSub_def Let_def emitted_def credentials_target_def provisioning_failed_def
          split: option.splits sum.splits dest!: create_client_result)
next
  case False
  with assms show ?thesis
    by (auto simp: NewPubSub_def Let_def emitted_def credentials_target_def provisioning_failed_def
          split: option.splits sum.splits dest!: create_client_result)
qed



section \<open>Properties of the publisher\<close>

lemma PublishMessage_transmitted:
  "transmitted (emitted tr (snd (PublishMessage get ps data attrs tr)))
     = [(Topic (Config ps), data, attrs)]"
  by (simp add: PublishMessage_def Let_def emitted_def split: sum.splits)

text \<open>
  Claim C8. \<open>Publish\<close> of a value that is not a string: when \<open>ToJSON\<close> gives a text,
  that text is the payload handed to the broker, once, on the configured topic and with
  the given attributes; when \<open>ToJSON\<close> fails, \<open>Publish\<close> returns that error with an
  empty ID and the trace is unchanged, so nothing was handed to the broker.
\<close>

theorem Publish_structured:
  "(\<forall>str. toJSON v = Inr str \<longrightarrow>
      Publish toJSON get ps (OtherValue v) attrs tr = PublishMessage get ps str attrs tr \<and>
      transmitted (emitted tr (snd (Publish toJSON get ps (OtherValue v) attrs tr)))
        = [(Topic (Config ps), str, attrs)]) \<and>
   (\<forall>err. toJSON v = Inl err \<longrightarrow>
      Publish toJSON get ps (OtherValue v) attrs tr = (([], Some err), tr))"
  by (simp add: Publish_def PublishMessage_transmitted)

theorem Publish_structured_witness:
  "toJSON1 (Some 1) = Inr json_x1 \<and>
   transmitted (emitted [] (snd (Publish toJSON1 broker_ok ps1 (OtherValue (Some 1)) fmempty [])))
     = [(''projects/proj-1/topics/t1'', json_x1, fmempty)] \<and>
   toJSON1 None = Inl (LibError ''unsupported type'') \<and>
   Publish toJSON1 broker_ok ps1 (OtherValue None) fmempty []
     = (([], Some (LibError ''unsupported type'')), [])"
proof -
  have a: "toJSON1 (Some 1) = Inr json_x1"
    by (simp add: toJSON1_def)
  have b: "toJSON1 None = Inl (LibError ''unsupported type'')"
    by (simp add: toJSON1_def)
  have t: "Topic (Config ps1) = ''projects/proj-1/topics/t1''"
    by (simp add: ps1_def cfg1_def)
  from Publish_structured[of toJSON1 "Some 1" broker_ok ps1 fmempty "[]"] a
  have c: "transmitted (emitted [] (snd (Publish toJSON1 broker_ok ps1 (OtherValue (Some 1)) fmempty [])))
        = [(Topic (Config ps1), json_x1, fmempty)]"
    by blast
  from Publish_structured[of toJSON1 None broker_ok ps1 fmempty "[]"] b
  have d: "Publish toJSON1 broker_ok ps1 (OtherValue None) fmempty []
     = (([], Some (LibError ''unsupported type'')), [])"
    by blast
  from a b c d show ?thesis unfolding t by blast
qed

text \<open>
  Claim C10. \<open>Publish\<close> of a string hands exactly the bytes of that string to the
  broker, once: it is \<open>PublishMessage\<close> on the string itself, whatever \<open>ToJSON\<close>
  would do, also for a string that holds JSON text.
\<close>

theorem Publish_string_verbatim:
  "Publish toJSON get ps (StringValue str) attrs tr = PublishMessage get ps str attrs tr \<and>
   transmitted (emitted tr (snd (Publish toJSON get ps (StringValue str) attrs tr)))
     = [(Topic (Config ps), str, attrs)]"
  by (simp add: Publish_def PublishMessage_transmitted)

theorem Publish_string_verbatim_witness:
  "transmitted (emitted [] (snd (Publish toJSON1 broker_ok ps1 (StringValue json_x1) fmempty [])))
     = [(''projects/proj-1/topics/t1'', json_x1, fmempty)]"
proof -
  have t: "Topic (Config ps1) = ''projects/proj-1/topics/t1''"
    by (simp add: ps1_def cfg1_def)
  from Publish_string_verbatim[of toJSON1 broker_ok ps1 json_x1 fmempty "[]"]
  have "transmitted (emitted [] (snd (Publish toJSON1 broker_ok ps1 (StringValue json_x1) fmempty [])))
     = [(Topic (Config ps1), json_x1, fmempty)]"
    by (rule conjunct2)
  then show ?thesis unfolding t .
qed

text \<open>
  Claim C3 fails on the code: \<open>results\<close> starts empty and is never extended, so the
  assignment \<open>results[i] = msgID\<close> panics at the first publish that the broker
  accepts. Here one payload is published and accepted.
\<close>

theorem PublishMessages_panics:
  "PublishMessages broker_ok ps1 [''a''] fmempty [] =
     (Inl (IndexOutOfRange 0 0),
      [BrokerPublish ''projects/proj-1/topics/t1''
         \<lparr>ID = [], Data = ''a'', PublishTime = 0, Attributes = fmempty\<rparr>, publish_log])"
  by (simp add: PublishMessages_def PublishMessage_def broker_ok_def ps1_def cfg1_def
        publish_log_def Let_def)

text \<open>
  So \<open>PublishMessages\<close> returns no ID at all: whenever it returns, the result list is
  empty. It returns when every publish fails, with the error of the last publish.
\<close>

lemma PublishMessages_loop_no_ID:
  "PublishMessages_loop get ps msgs attrs [] err i tr = (Inr (results, err'), tr')
     \<Longrightarrow> results = []"
proof (induction msgs arbitrary: err tr)
  case Nil
  then show ?case by simp
next
  case (Cons msg msgs)
  obtain msgID e1 tr1 where p: "PublishMessage get ps msg attrs tr = ((msgID, e1), tr1)"
    by (metis surj_pair)
  show ?case
  proof (cases "msgID = []")
    case True
    with Cons.prems p have "PublishMessages_loop get ps msgs attrs [] e1 i tr1 = (Inr (results, err'), tr')"
      by simp
    then show ?thesis by (rule Cons.IH)
  next
    case False
    with Cons.prems p show ?thesis by simp
  qed
qed

lemma PublishMessages_never_returns_ID:
  "PublishMessages get ps messages attrs tr = (Inr (results, err), tr') \<Longrightarrow> results = []"
  unfolding PublishMessages_def by (rule PublishMessages_loop_no_ID)

lemma PublishMessages_all_fail:
  "PublishMessages broker_down ps1 [''a'', ''b''] fmempty [] =
     (Inr ([], Some (ErrPublish (LibError ''unavailable''))),
      [BrokerPublish ''projects/proj-1/topics/t1''
         \<lparr>ID = [], Data = ''a'', PublishTime = 0, Attributes = fmempty\<rparr>,
       BrokerPublish ''projects/proj-1/topics/t1''
         \<lparr>ID = [], Data = ''b'', PublishTime = 0, Attributes = fmempty\<rparr>])"
  by (simp add: PublishMessages_def PublishMessage_def broker_down_def ps1_def cfg1_def Let_def)

section \<open>Properties of Disconnect\<close>

text \<open>
  Claim C9 does not hold for every broker handle: \<open>Disconnect\<close> keeps the handle, a
  second call closes it again, and a handle that cannot be closed twice makes it fail.
\<close>

theorem Disconnect_twice_counterexample:
  "Client ps1 = Some False \<and>
   fst (Disconnect close_once ps1) = None \<and>
   fst (Disconnect close_once (snd (Disconnect close_once ps1)))
     = Some (LibError ''the client connection is closing'')"
  by (simp add: Disconnect_def close_once_def ps1_def)

text \<open>
  Claim C9, amended. Without a broker handle \<open>Disconnect\<close> does nothing and returns no
  error, however often it is called. With a handle, a call returns what the handle's close
  returns and keeps the handle, so the second of two calls in succession returns what a
  second close of the same handle returns.
\<close>

theorem Disconnect_forwards_close:
  "(Client ps = None \<longrightarrow>
      Disconnect close ps = (None, ps) \<and>
      Disconnect close (snd (Disconnect close ps)) = (None, ps)) \<and>
   (\<forall>c. Client ps = Some c \<longrightarrow>
      fst (Disconnect close ps) = fst (close c) \<and>
      fst (Disconnect close (snd (Disconnect close ps))) = fst (close (snd (close c))))"
  by (auto simp: Disconnect_def split: prod.splits)

theorem Disconnect_forwards_close_witness:
  "Client (ps1\<lparr>Client := None\<rparr>) = None \<and>
   Disconnect close_once (ps1\<lparr>Client := None\<rparr>) = (None, ps1\<lparr>Client := None\<rparr>) \<and>
   Client ps1 = Some False \<and>
   fst (Disconnect close_once (snd (Disconnect close_once ps1)))
     = fst (close_once (snd (close_once False)))"
proof -
  have n: "Client (ps1\<lparr>Client := None\<rparr>) = None"
    by simp
  have h: "Client ps1 = Some False"
    by (simp add: ps1_def)
  from Disconnect_forwards_close[of "ps1\<lparr>Client := None\<rparr>" close_once] n
  have a: "Disconnect close_once (ps1\<lparr>Client := None\<rparr>) = (None, ps1\<lparr>Client := None\<rparr>)"
    by blast
  from Disconnect_forwards_close[of ps1 close_once] h
  have b: "fst (Disconnect close_once (snd (Disconnect close_once ps1)))
     = fst (close_once (snd (close_once False)))"
    by blast
  from n a h b show ?thesis by blast
qed

end
